theory Spec2Isabelle
  imports Main
begin

section \<open>The browser front end of Buddy (web/static/js/app.js)\<close>

text \<open>
  The script is one \<open>DOMContentLoaded\<close> handler that closes over six DOM elements and
  three module-level variables. The embedding keeps all of them in one record, together
  with what the script asks of its host (the \<open>fetch\<close> calls, the microphone requests,
  the recorders it creates, the tracks it stops, the console and the alerts). Every
  function of the script is a function on that record. An \<open>async\<close> function is split
  at its \<open>await\<close>: the part before it issues the request, the part after it
  (\<open>..._resume\<close>) runs when the host settles the request.
\<close>

subsection \<open>Strings and JSON values\<close>

text \<open>A JavaScript string is a sequence of UTF-16 code units.\<close>

type_synonym jsstring = "nat list"

definition asc :: "string \<Rightarrow> jsstring" where
  "asc cs = map of_char cs"

text \<open>\<open>WhiteSpace\<close> and \<open>LineTerminator\<close> of ECMAScript, which \<open>String.prototype.trim\<close> strips.\<close>

definition isWhiteSpace :: "nat \<Rightarrow> bool" where
  "isWhiteSpace c \<longleftrightarrow>
     c \<in> {9, 10, 11, 12, 13, 32, 160, 5760, 8232, 8233, 8239, 8287, 12288, 65279}
     \<or> (8192 \<le> c \<and> c \<le> 8202)"

definition trim :: "jsstring \<Rightarrow> jsstring" where
  "trim v = rev (dropWhile isWhiteSpace (rev (dropWhile isWhiteSpace v)))"

text \<open>
  A property of a JSON object that holds a string is \<open>Some\<close> of it; a property that is
  absent or \<open>null\<close> is \<open>None\<close>. \<open>template\<close> is the interpolation \<open>${v}\<close>,
  \<open>textContent\<close> the value an element shows after \<open>el.textContent = v\<close>, \<open>truthy\<close>
  the test of \<open>v || ...\<close> and \<open>if (v)\<close>, \<open>gt0\<close> the test \<open>n > 0\<close>.
\<close>

definition template :: "jsstring option \<Rightarrow> jsstring" where
  "template v = (case v of None \<Rightarrow> asc ''undefined'' | Some x \<Rightarrow> x)"

definition textContent :: "jsstring option \<Rightarrow> jsstring" where
  "textContent v = (case v of None \<Rightarrow> [] | Some x \<Rightarrow> x)"

definition truthy :: "jsstring option \<Rightarrow> bool" where
  "truthy v = (case v of None \<Rightarrow> False | Some x \<Rightarrow> x \<noteq> [])"

definition gt0 :: "int option \<Rightarrow> bool" where
  "gt0 n = (case n of None \<Rightarrow> False | Some k \<Rightarrow> k > 0)"

record task =
  task_id :: jsstring
  task_description :: jsstring
  task_status :: jsstring
  task_created_at :: jsstring

text \<open>
  The JSON object of a response body, with the four properties the script reads;
  \<open>tasks\<close>, when present, is an array of task objects.
\<close>

record body =
  data_text :: "jsstring option"
  data_tasks_extracted :: "int option"
  data_voice_data :: "jsstring option"
  data_tasks :: "task list option"

text \<open>
  How a \<open>fetch\<close> settles: the promise rejects (\<open>TransportError\<close>), or it resolves with
  a response whose \<open>ok\<close> flag is the first argument; the second is what
  \<open>response.json()\<close> gives, \<open>None\<close> when it rejects or yields \<open>null\<close>. Nothing
  of the script runs between the two awaits, so they are one step here.
\<close>

datatype response = TransportError | Http bool "body option"

subsection \<open>The page\<close>

datatype sender = User | Assistant

record message =
  msg_sender :: sender
  msg_avatar :: jsstring
  msg_text :: jsstring

text \<open>An action button of a task card: its label and the arguments of its click handler.\<close>

datatype action = Button jsstring jsstring jsstring

text \<open>
  A task card. \<open>item_date\<close> holds \<open>task.created_at\<close>; the card shows
  \<open>new Date(task.created_at).toLocaleString()\<close>, which depends on the host's locale.
\<close>

record task_item =
  item_class :: jsstring
  item_id :: jsstring
  item_description :: jsstring
  item_date :: jsstring
  item_status :: jsstring
  item_actions :: "action list"

datatype panel_node = NoTasks jsstring | TaskItem task_item

record filter_button =
  fb_filter :: "jsstring option"
  fb_active :: bool

record voice_button =
  vb_text :: jsstring
  vb_title :: jsstring
  vb_recording :: bool
  vb_disabled :: bool

subsection \<open>The host\<close>

datatype payload =
    NoBody
  | ChatJson jsstring jsstring bool
  | StatusJson jsstring
  | VoiceForm "nat list" jsstring jsstring

record request =
  req_method :: jsstring
  req_url :: jsstring
  req_payload :: payload

text \<open>Which function is suspended on a request.\<close>

datatype cont = AfterChat | AfterTasks | AfterUpdate | AfterVoice

datatype rec_state = Recording | Stopping | Inactive

text \<open>
  What the host does when the script builds and starts a recorder: it records, or
  \<open>new MediaRecorder(stream)\<close> throws (a host without \<open>MediaRecorder\<close>), or
  \<open>mediaRecorder.start()\<close> throws.
\<close>

datatype recorder_host = Records | NoMediaRecorder | StartThrows

record recorder =
  rec_stream :: nat
  rec_state :: rec_state

record state =
  chatMessages :: "message list"
  userInput :: jsstring
  tasksList :: "panel_node list"
  filterButtons :: "filter_button list"
  voiceButton :: voice_button
  mediaRecorder :: "nat option"
  audioChunks :: "nat list"
  isRecording :: bool
  mediaDevices :: bool
  recorderHost :: recorder_host
  fetches :: "request list"
  awaiting :: "(nat \<times> cont) list"
  micRequests :: nat
  micAwaiting :: "nat list"
  recorders :: "recorder list"
  trackStops :: "nat list"
  played :: "jsstring list"
  console :: "jsstring list"
  alerts :: "jsstring list"

text \<open>
  \<open>chatMessages\<close> is the list of \<open>.message\<close> elements of \<open>#chat-messages\<close>,
  \<open>tasksList\<close> the children of \<open>#tasks-list\<close>, \<open>filterButtons\<close> the buttons of
  \<open>.tasks-filter\<close> in document order. \<open>fetches\<close> is every call of \<open>fetch\<close> in
  call order and \<open>awaiting\<close> the calls not settled yet; \<open>micRequests\<close> counts the
  calls of \<open>getUserMedia\<close>, the \<open>k\<close>-th of which yields stream \<open>k\<close>;
  \<open>recorders\<close> are the \<open>MediaRecorder\<close> objects in creation order and
  \<open>mediaRecorder\<close> the index of the one the variable holds; \<open>recorderHost\<close> says
  whether the host can build and start a recorder; \<open>trackStops\<close> are the
  streams whose tracks were stopped. An audio chunk is a natural number. Every message
  of the chat has the shape \<open>addMessageToUI\<close> builds (an avatar and a paragraph); the
  scroll position is not part of the state.
\<close>

definition userId :: jsstring where
  "userId = asc ''default_user''"

definition fetch :: "request \<Rightarrow> cont \<Rightarrow> state \<Rightarrow> state" where
  "fetch r c s = s\<lparr>fetches := fetches s @ [r],
                   awaiting := awaiting s @ [(length (fetches s), c)]\<rparr>"

definition console_error :: "jsstring \<Rightarrow> state \<Rightarrow> state" where
  "console_error l s = s\<lparr>console := console s @ [l]\<rparr>"

text \<open>
  \<open>document.querySelector('.tasks-filter button.active').dataset.filter\<close>: the outer
  \<open>None\<close> is the \<open>TypeError\<close> of reading \<open>dataset\<close> of \<open>null\<close>, when no button
  is active.
\<close>

definition activeFilter :: "state \<Rightarrow> jsstring option option" where
  "activeFilter s = map_option fb_filter (find fb_active (filterButtons s))"

subsection \<open>Chat\<close>

definition messageDiv :: "sender \<Rightarrow> jsstring option \<Rightarrow> message" where
  "messageDiv sndr content =
     \<lparr>msg_sender = sndr,
      msg_avatar = (if sndr = User then [55357, 56420] else [55358, 56598]),
      msg_text = textContent content\<rparr>"

definition addMessageToUI :: "sender \<Rightarrow> jsstring option \<Rightarrow> state \<Rightarrow> state" where
  "addMessageToUI sndr content s =
     s\<lparr>chatMessages := chatMessages s @ [messageDiv sndr content]\<rparr>"

subsection \<open>Tasks\<close>

definition tasks_url :: "jsstring option \<Rightarrow> jsstring" where
  "tasks_url flt =
     (let url = asc ''/api/tasks?user_id='' @ userId
      in if flt \<noteq> Some (asc ''all'') then url @ asc ''&status='' @ template flt else url)"

definition tasks_request :: "jsstring option \<Rightarrow> request" where
  "tasks_request flt =
     \<lparr>req_method = asc ''GET'', req_url = tasks_url flt, req_payload = NoBody\<rparr>"

definition loadTasks :: "jsstring option \<Rightarrow> state \<Rightarrow> state" where
  "loadTasks flt s = fetch (tasks_request flt) AfterTasks s"

definition taskDiv :: "task \<Rightarrow> task_item" where
  "taskDiv t =
     \<lparr>item_class = task_status t,
      item_id = task_id t,
      item_description = task_description t,
      item_date = task_created_at t,
      item_status = task_status t,
      item_actions =
        (if task_status t = asc ''pending''
           then [Button (asc ''Complete'') (task_id t) (asc ''completed'')]
         else if task_status t = asc ''completed''
           then [Button (asc ''Reopen'') (task_id t) (asc ''pending'')]
         else [])\<rparr>"

definition no_tasks_yet :: jsstring where
  "no_tasks_yet = asc ''No tasks yet. Ask me to remind you about something!''"

definition renderTasks :: "task list \<Rightarrow> state \<Rightarrow> state" where
  "renderTasks tasks s =
     (if length tasks = 0 then s\<lparr>tasksList := [NoTasks no_tasks_yet]\<rparr>
      else s\<lparr>tasksList := map (\<lambda>t. TaskItem (taskDiv t)) tasks\<rparr>)"

definition loadTasks_catch :: "state \<Rightarrow> state" where
  "loadTasks_catch s =
     (console_error (asc ''Error loading tasks:'') s)
       \<lparr>tasksList := [NoTasks (asc ''Error loading tasks'')]\<rparr>"

definition loadTasks_resume :: "response \<Rightarrow> state \<Rightarrow> state" where
  "loadTasks_resume r s =
     (case r of
        TransportError \<Rightarrow> loadTasks_catch s
      | Http ok b \<Rightarrow>
          if \<not> ok then loadTasks_catch s
          else (case b of
                  None \<Rightarrow> loadTasks_catch s
                | Some d \<Rightarrow>
                    renderTasks (case data_tasks d of None \<Rightarrow> [] | Some ts \<Rightarrow> ts) s))"

definition update_request :: "jsstring \<Rightarrow> jsstring \<Rightarrow> request" where
  "update_request taskId status =
     \<lparr>req_method = asc ''PUT'', req_url = asc ''/api/tasks/'' @ taskId,
      req_payload = StatusJson status\<rparr>"

definition updateTaskStatus :: "jsstring \<Rightarrow> jsstring \<Rightarrow> state \<Rightarrow> state" where
  "updateTaskStatus taskId status s = fetch (update_request taskId status) AfterUpdate s"

definition updateTaskStatus_catch :: "state \<Rightarrow> state" where
  "updateTaskStatus_catch s = console_error (asc ''Error updating task:'') s"

definition updateTaskStatus_resume :: "response \<Rightarrow> state \<Rightarrow> state" where
  "updateTaskStatus_resume r s =
     (case r of
        TransportError \<Rightarrow> updateTaskStatus_catch s
      | Http ok b \<Rightarrow>
          if \<not> ok then updateTaskStatus_catch s
          else (case activeFilter s of
                  None \<Rightarrow> updateTaskStatus_catch s
                | Some flt \<Rightarrow> loadTasks flt s))"

subsection \<open>Chat transport\<close>

definition chat_request :: "jsstring \<Rightarrow> request" where
  "chat_request msg =
     \<lparr>req_method = asc ''POST'', req_url = asc ''/api/chat'',
      req_payload = ChatJson msg userId False\<rparr>"

definition fetchChatResponse :: "jsstring \<Rightarrow> state \<Rightarrow> state" where
  "fetchChatResponse msg s = fetch (chat_request msg) AfterChat s"

definition chat_error_text :: jsstring where
  "chat_error_text = asc ''Sorry, there was an error processing your request.''"

definition fetchChatResponse_catch :: "state \<Rightarrow> state" where
  "fetchChatResponse_catch s =
     addMessageToUI Assistant (Some chat_error_text) (console_error (asc ''Error:'') s)"

definition fetchChatResponse_resume :: "response \<Rightarrow> state \<Rightarrow> state" where
  "fetchChatResponse_resume r s =
     (case r of
        TransportError \<Rightarrow> fetchChatResponse_catch s
      | Http ok b \<Rightarrow>
          if \<not> ok then fetchChatResponse_catch s
          else (case b of
                  None \<Rightarrow> fetchChatResponse_catch s
                | Some d \<Rightarrow>
                    let s1 = addMessageToUI Assistant (data_text d) s
                    in if gt0 (data_tasks_extracted d)
                       then (case activeFilter s1 of
                               None \<Rightarrow> fetchChatResponse_catch s1
                             | Some flt \<Rightarrow> loadTasks flt s1)
                       else s1))"

definition sendMessage :: "state \<Rightarrow> state" where
  "sendMessage s =
     (let msg = trim (userInput s)
      in if msg = [] then s
         else fetchChatResponse msg ((addMessageToUI User (Some msg) s)\<lparr>userInput := []\<rparr>))"

subsection \<open>Voice\<close>

definition processing_text :: jsstring where
  "processing_text = [55356, 57252] @ asc '' Processing voice message...''"

definition untranscribed_text :: jsstring where
  "untranscribed_text = asc ''(Could not transcribe audio)''"

definition voice_error_text :: jsstring where
  "voice_error_text = asc ''Sorry, there was an error processing your voice message.''"

definition playAudioResponse :: "jsstring \<Rightarrow> state \<Rightarrow> state" where
  "playAudioResponse base64Audio s =
     s\<lparr>played := played s @ [asc ''data:audio/mp3;base64,'' @ base64Audio]\<rparr>"

text \<open>The blob is the chunks it was made of and its type \<open>audio/mp3\<close>.\<close>

definition voice_request :: "nat list \<Rightarrow> request" where
  "voice_request audioBlob =
     \<lparr>req_method = asc ''POST'', req_url = asc ''/api/voice'',
      req_payload = VoiceForm audioBlob (asc ''audio/mp3'') userId\<rparr>"

definition sendVoiceRecording :: "nat list \<Rightarrow> state \<Rightarrow> state" where
  "sendVoiceRecording audioBlob s =
     fetch (voice_request audioBlob) AfterVoice
       (addMessageToUI User (Some processing_text) s)"

definition sendVoiceRecording_catch :: "state \<Rightarrow> state" where
  "sendVoiceRecording_catch s =
     addMessageToUI Assistant (Some voice_error_text)
       (console_error (asc ''Error processing voice:'') s)"

text \<open>
  \<open>messages[messages.length - 1]\<close> is the last \<open>.message\<close> element of the chat at the
  moment the response arrives; with no such element it is \<open>undefined\<close> and
  \<open>placeholder.querySelector\<close> throws.
\<close>

definition sendVoiceRecording_resume :: "response \<Rightarrow> state \<Rightarrow> state" where
  "sendVoiceRecording_resume r s =
     (case r of
        TransportError \<Rightarrow> sendVoiceRecording_catch s
      | Http ok b \<Rightarrow>
          if \<not> ok then sendVoiceRecording_catch s
          else (case b of
                  None \<Rightarrow> sendVoiceRecording_catch s
                | Some d \<Rightarrow>
                    let messages = chatMessages s
                    in if messages = [] then sendVoiceRecording_catch s
                       else
                         let placeholder = last messages;
                             s1 = s\<lparr>chatMessages := butlast messages @
                                    [placeholder\<lparr>msg_text :=
                                       (if truthy (data_text d) then textContent (data_text d)
                                        else untranscribed_text)\<rparr>]\<rparr>;
                             s2 = addMessageToUI Assistant (data_text d) s1;
                             s3 = (if truthy (data_voice_data d)
                                   then playAudioResponse (textContent (data_voice_data d)) s2
                                   else s2)
                         in if gt0 (data_tasks_extracted d)
                            then (case activeFilter s3 of
                                    None \<Rightarrow> sendVoiceRecording_catch s3
                                  | Some flt \<Rightarrow> loadTasks flt s3)
                            else s3))"

subsection \<open>The recorder\<close>

text \<open>
  \<open>startRecording\<close> only asks for the microphone; the recorder is created and
  \<open>isRecording\<close> is set in the \<open>then\<close> callback of \<open>getUserMedia\<close>. Without
  \<open>navigator.mediaDevices\<close> the call throws and nothing changes.
\<close>

definition startRecording :: "state \<Rightarrow> state" where
  "startRecording s =
     (if isRecording s then s
      else if \<not> mediaDevices s then s
      else s\<lparr>micRequests := Suc (micRequests s),
             micAwaiting := micAwaiting s @ [micRequests s]\<rparr>)"

definition getUserMedia_catch :: "state \<Rightarrow> state" where
  "getUserMedia_catch s =
     (console_error (asc ''Error accessing microphone:'') s)
       \<lparr>alerts := alerts s @ [asc ''Could not access microphone. Please check permissions.'']\<rparr>"

text \<open>
  The \<open>then\<close> callback, called with the granted stream. An exception thrown in it
  reaches the chained \<open>catch\<close>, with what the callback did before it: nothing when the
  constructor throws; the recorder assigned, inactive, and the chunks reset when
  \<open>start()\<close> throws. In both cases \<open>isRecording\<close> stays false and no track of the
  stream is stopped.
\<close>

definition getUserMedia_then :: "nat \<Rightarrow> state \<Rightarrow> state" where
  "getUserMedia_then stream s =
     (case recorderHost s of
        NoMediaRecorder \<Rightarrow> getUserMedia_catch s
      | StartThrows \<Rightarrow>
          getUserMedia_catch
            (s\<lparr>recorders := recorders s @ [\<lparr>rec_stream = stream, rec_state = Inactive\<rparr>],
               mediaRecorder := Some (length (recorders s)),
               audioChunks := []\<rparr>)
      | Records \<Rightarrow>
          s\<lparr>recorders := recorders s @ [\<lparr>rec_stream = stream, rec_state = Recording\<rparr>],
            mediaRecorder := Some (length (recorders s)),
            audioChunks := [],
            isRecording := True,
            voiceButton := (voiceButton s)\<lparr>vb_text := [9209, 65039],
                                             vb_title := asc ''Stop recording'',
                                             vb_recording := True\<rparr>\<rparr>)"

text \<open>
  \<open>MediaRecorder.stop()\<close> on a recording recorder makes it inactive and queues its
  \<open>stop\<close> event (\<open>Stopping\<close> here, until the event is delivered). With the variable
  unset the call throws before anything is changed.
\<close>

definition recorder_stop :: "nat \<Rightarrow> recorder list \<Rightarrow> recorder list" where
  "recorder_stop i rs =
     (if i < length rs \<and> rec_state (rs ! i) = Recording
      then rs[i := (rs ! i)\<lparr>rec_state := Stopping\<rparr>] else rs)"

definition stopRecording :: "state \<Rightarrow> state" where
  "stopRecording s =
     (if \<not> isRecording s then s
      else (case mediaRecorder s of
              None \<Rightarrow> s
            | Some i \<Rightarrow>
                s\<lparr>recorders := recorder_stop i (recorders s),
                  isRecording := False,
                  voiceButton := (voiceButton s)\<lparr>vb_text := [55356, 57252],
                                                   vb_title := asc ''Voice Input'',
                                                   vb_recording := False\<rparr>\<rparr>))"

definition toggleVoiceRecording :: "state \<Rightarrow> state" where
  "toggleVoiceRecording s = (if isRecording s then stopRecording s else startRecording s)"

definition recorder_ondataavailable :: "nat \<Rightarrow> state \<Rightarrow> state" where
  "recorder_ondataavailable chunk s = s\<lparr>audioChunks := audioChunks s @ [chunk]\<rparr>"

text \<open>The \<open>stop\<close> listener of the recorder made for \<open>stream\<close>.\<close>

definition recorder_onstop :: "nat \<Rightarrow> state \<Rightarrow> state" where
  "recorder_onstop stream s =
     (let s1 = sendVoiceRecording (audioChunks s) s
      in s1\<lparr>trackStops := trackStops s1 @ [stream]\<rparr>)"

subsection \<open>Initialisation and the filter buttons\<close>

text \<open>
  The click listener of the \<open>i\<close>-th filter button; \<open>step\<close> calls it for the buttons
  that exist.
\<close>

definition filterClick :: "nat \<Rightarrow> state \<Rightarrow> state" where
  "filterClick i s =
     (let cleared = map (\<lambda>b. b\<lparr>fb_active := False\<rparr>) (filterButtons s);
          marked = cleared[i := (cleared ! i)\<lparr>fb_active := True\<rparr>]
      in loadTasks (fb_filter (marked ! i)) (s\<lparr>filterButtons := marked\<rparr>))"

definition init :: "state \<Rightarrow> state" where
  "init s =
     loadTasks (Some (asc ''all''))
       (if mediaDevices s then s
        else s\<lparr>voiceButton := (voiceButton s)
                \<lparr>vb_disabled := True,
                 vb_title := asc ''Voice input not supported in your browser''\<rparr>\<rparr>)"

subsection \<open>The event loop\<close>

datatype event =
    ClickSend
  | KeyDown jsstring bool
  | Input jsstring
  | ClickVoice
  | ClickFilter nat
  | ClickAction nat nat
  | Settle nat response
  | MicGranted nat
  | MicDenied nat
  | DataAvailable nat nat
  | RecorderStopped nat

definition resume :: "cont \<Rightarrow> response \<Rightarrow> state \<Rightarrow> state" where
  "resume c r s =
     (case c of
        AfterChat \<Rightarrow> fetchChatResponse_resume r s
      | AfterTasks \<Rightarrow> loadTasks_resume r s
      | AfterUpdate \<Rightarrow> updateTaskStatus_resume r s
      | AfterVoice \<Rightarrow> sendVoiceRecording_resume r s)"

definition clickAction :: "nat \<Rightarrow> nat \<Rightarrow> state \<Rightarrow> state" where
  "clickAction i j s =
     (if i < length (tasksList s) then
        (case tasksList s ! i of
           NoTasks m \<Rightarrow> s
         | TaskItem it \<Rightarrow>
             if j < length (item_actions it) then
               (case item_actions it ! j of
                  Button l taskId status \<Rightarrow> updateTaskStatus taskId status s)
             else s)
      else s)"

text \<open>
  One turn of the host's event loop. An event for something that does not exist or is
  not pending (a disabled button, a request already settled, a recorder that was not
  stopped) does nothing.
\<close>

fun step :: "event \<Rightarrow> state \<Rightarrow> state" where
  "step ClickSend s = sendMessage s"
| "step (KeyDown key shift) s =
     (if key = asc ''Enter'' \<and> \<not> shift then sendMessage s else s)"
| "step (Input v) s = s\<lparr>userInput := v\<rparr>"
| "step ClickVoice s =
     (if vb_disabled (voiceButton s) then s else toggleVoiceRecording s)"
| "step (ClickFilter i) s =
     (if i < length (filterButtons s) then filterClick i s else s)"
| "step (ClickAction i j) s = clickAction i j s"
| "step (Settle k r) s =
     (case map_of (awaiting s) k of
        None \<Rightarrow> s
      | Some c \<Rightarrow> resume c r (s\<lparr>awaiting := filter (\<lambda>p. fst p \<noteq> k) (awaiting s)\<rparr>))"
| "step (MicGranted k) s =
     (if k \<in> set (micAwaiting s)
      then getUserMedia_then k (s\<lparr>micAwaiting := removeAll k (micAwaiting s)\<rparr>)
      else s)"
| "step (MicDenied k) s =
     (if k \<in> set (micAwaiting s)
      then getUserMedia_catch (s\<lparr>micAwaiting := removeAll k (micAwaiting s)\<rparr>)
      else s)"
| "step (DataAvailable i chunk) s =
     (if i < length (recorders s) \<and> rec_state (recorders s ! i) \<noteq> Inactive
      then recorder_ondataavailable chunk s else s)"
| "step (RecorderStopped i) s =
     (if i < length (recorders s) \<and> rec_state (recorders s ! i) = Stopping
      then recorder_onstop (rec_stream (recorders s ! i))
             (s\<lparr>recorders := (recorders s)[i := (recorders s ! i)\<lparr>rec_state := Inactive\<rparr>]\<rparr>)
      else s)"

fun run :: "event list \<Rightarrow> state \<Rightarrow> state" where
  "run [] s = s"
| "run (e # es) s = run es (step e s)"

section \<open>Example inputs\<close>

text \<open>
  A page with three filter buttons, the first of them active, one pending task shown and
  a blank input field; response bodies and tasks.
\<close>

definition example_task :: task where
  "example_task =
     \<lparr>task_id = asc ''1'', task_description = asc ''call mum'',
      task_status = asc ''pending'', task_created_at = asc ''2024-01-01T10:00:00''\<rparr>"

definition example_page :: state where
  "example_page =
     \<lparr>chatMessages = [], userInput = [32, 9, 160, 10],
      tasksList = [TaskItem (taskDiv example_task)],
      filterButtons = [\<lparr>fb_filter = Some (asc ''all''), fb_active = True\<rparr>,
                       \<lparr>fb_filter = Some (asc ''pending''), fb_active = False\<rparr>,
                       \<lparr>fb_filter = Some (asc ''completed''), fb_active = False\<rparr>],
      voiceButton = \<lparr>vb_text = [55356, 57252], vb_title = asc ''Voice Input'',
                      vb_recording = False, vb_disabled = False\<rparr>,
      mediaRecorder = None, audioChunks = [], isRecording = False, mediaDevices = True,
      recorderHost = Records,
      fetches = [], awaiting = [], micRequests = 0, micAwaiting = [], recorders = [],
      trackStops = [], played = [], console = [], alerts = []\<rparr>"

definition example_body :: body where
  "example_body =
     \<lparr>data_text = Some (asc ''Noted.''), data_tasks_extracted = Some 2,
      data_voice_data = None, data_tasks = Some []\<rparr>"



definition transcript_body :: body where
  "transcript_body =
     \<lparr>data_text = Some (asc ''buy milk''), data_tasks_extracted = None,
      data_voice_data = None, data_tasks = None\<rparr>"

definition pending_tasks :: body where
  "pending_tasks =
     \<lparr>data_text = None, data_tasks_extracted = None, data_voice_data = None,
      data_tasks = Some [example_task]\<rparr>"

definition done_task :: task where
  "done_task =
     \<lparr>task_id = asc ''2'', task_description = asc ''buy milk'',
      task_status = asc ''completed'', task_created_at = asc ''2024-01-02T09:00:00''\<rparr>"

definition completed_tasks :: body where
  "completed_tasks =
     \<lparr>data_text = None, data_tasks_extracted = None, data_voice_data = None,
      data_tasks = Some [done_task]\<rparr>"

definition updated_tasks :: body where
  "updated_tasks =
     \<lparr>data_text = None, data_tasks_extracted = None, data_voice_data = None,
      data_tasks = Some [example_task\<lparr>task_status := asc ''completed''\<rparr>]\<rparr>"

text \<open>The example page with the \<open>pending\<close> button active.\<close>

definition pending_page :: state where
  "pending_page =
     example_page
       \<lparr>filterButtons := [\<lparr>fb_filter = Some (asc ''all''), fb_active = False\<rparr>,
                          \<lparr>fb_filter = Some (asc ''pending''), fb_active = True\<rparr>,
                          \<lparr>fb_filter = Some (asc ''completed''), fb_active = False\<rparr>]\<rparr>"

definition no_tasks_body :: body where
  "no_tasks_body =
     \<lparr>data_text = None, data_tasks_extracted = None, data_voice_data = None,
      data_tasks = Some []\<rparr>"

text \<open>The page after a click on the card's \<open>Complete\<close> button: the update is in flight.\<close>

definition updating_page :: state where
  "updating_page =
     pending_page\<lparr>fetches := [update_request (asc ''1'') (asc ''completed'')],
                  awaiting := [(0, AfterUpdate)]\<rparr>"

text \<open>Exactly one of the filter buttons carries the class \<open>active\<close>.\<close>

definition one_active :: "state \<Rightarrow> bool" where
  "one_active s \<longleftrightarrow> length (filter fb_active (filterButtons s)) = 1"


text \<open>The task cards among the children of \<open>#tasks-list\<close>.\<close>

definition task_cards :: "panel_node list \<Rightarrow> task_item list" where
  "task_cards ns = concat (map (\<lambda>n. case n of NoTasks m \<Rightarrow> [] | TaskItem it \<Rightarrow> [it]) ns)"

section \<open>Basic facts\<close>

lemma trim_empty_iff: "trim v = [] \<longleftrightarrow> (\<forall>c \<in> set v. isWhiteSpace c)"
proof
  assume "trim v = []"
  then have d: "\<forall>x \<in> set (dropWhile isWhiteSpace v). isWhiteSpace x"
    by (simp add: trim_def dropWhile_eq_Nil_conv)
  show "\<forall>c \<in> set v. isWhiteSpace c"
  proof
    fix c assume "c \<in> set v"
    then have "c \<in> set (takeWhile isWhiteSpace v) \<or> c \<in> set (dropWhile isWhiteSpace v)"
      by (metis Un_iff set_append takeWhile_dropWhile_id)
    with d show "isWhiteSpace c" by (auto dest: set_takeWhileD)
  qed
next
  assume "\<forall>c \<in> set v. isWhiteSpace c"
  then show "trim v = []"
    by (auto simp: trim_def dropWhile_eq_Nil_conv dest: set_dropWhileD)
qed

subsection \<open>Requests and messages, written out\<close>

lemma tasks_request_explicit:
  "tasks_request flt =
     \<lparr>req_method = asc ''GET'',
      req_url = (if flt = Some (asc ''all'') then asc ''/api/tasks?user_id=default_user''
                 else asc ''/api/tasks?user_id=default_user&status='' @
                        (case flt of None \<Rightarrow> asc ''undefined'' | Some f \<Rightarrow> f)),
      req_payload = NoBody\<rparr>"
  by (simp add: tasks_request_def tasks_url_def userId_def template_def asc_def Let_def
      split: option.splits)


lemma voice_request_explicit:
  "voice_request audioBlob =
     \<lparr>req_method = asc ''POST'', req_url = asc ''/api/voice'',
      req_payload = VoiceForm audioBlob (asc ''audio/mp3'') (asc ''default_user'')\<rparr>"
  by (simp add: voice_request_def userId_def)

lemma update_request_explicit:
  "update_request taskId status =
     \<lparr>req_method = asc ''PUT'', req_url = asc ''/api/tasks/'' @ taskId,
      req_payload = StatusJson status\<rparr>"
  by (simp add: update_request_def)

lemma messageDiv_user:
  "messageDiv User (Some x) =
     \<lparr>msg_sender = User, msg_avatar = [55357, 56420], msg_text = x\<rparr>"
  by (simp add: messageDiv_def textContent_def)

lemma messageDiv_assistant:
  "messageDiv Assistant (Some x) =
     \<lparr>msg_sender = Assistant, msg_avatar = [55358, 56598], msg_text = x\<rparr>"
  by (simp add: messageDiv_def textContent_def)

lemma activeFilter_pending: "activeFilter pending_page = Some (Some (asc ''pending''))"
  by (simp add: activeFilter_def pending_page_def)

subsection \<open>Handlers\<close>

lemma fetches_loadTasks: "fetches (loadTasks flt s) = fetches s @ [tasks_request flt]"
  by (simp add: loadTasks_def fetch_def)

lemma tasksList_loadTasks: "tasksList (loadTasks flt s) = tasksList s"
  by (simp add: loadTasks_def fetch_def)



lemma voice_catch:
  "sendVoiceRecording_catch s =
     s\<lparr>chatMessages := chatMessages s @ [messageDiv Assistant (Some voice_error_text)],
       console := console s @ [asc ''Error processing voice:'']\<rparr>"
  by (simp add: sendVoiceRecording_catch_def addMessageToUI_def console_error_def)



lemma tasksList_update_resume: "tasksList (updateTaskStatus_resume r s) = tasksList s"
  by (cases r) (simp_all add: updateTaskStatus_resume_def updateTaskStatus_catch_def
      console_error_def tasksList_loadTasks split: option.splits)


lemma run_append: "run (es @ fs) s = run fs (run es s)"
  by (induction es arbitrary: s) simp_all

lemma run_DataAvailable:
  "i < length (recorders s) \<Longrightarrow> rec_state (recorders s ! i) \<noteq> Inactive \<Longrightarrow>
     run (map (DataAvailable i) cs) s = s\<lparr>audioChunks := audioChunks s @ cs\<rparr>"
  by (induction cs arbitrary: s) (simp_all add: recorder_ondataavailable_def)

text \<open>A start toggle in the idle state, and the grant of its request.\<close>

lemma granted:
  assumes "\<not> isRecording s" "mediaDevices s" "\<not> vb_disabled (voiceButton s)"
    and "recorderHost s = Records"
  shows "run [ClickVoice, MicGranted (micRequests s)] s =
     s\<lparr>micRequests := Suc (micRequests s),
       micAwaiting := removeAll (micRequests s) (micAwaiting s),
       recorders := recorders s @ [\<lparr>rec_stream = micRequests s, rec_state = Recording\<rparr>],
       mediaRecorder := Some (length (recorders s)),
       audioChunks := [],
       isRecording := True,
       voiceButton := (voiceButton s)\<lparr>vb_text := [9209, 65039],
                                        vb_title := asc ''Stop recording'',
                                        vb_recording := True\<rparr>\<rparr>"
  using assms by (simp add: toggleVoiceRecording_def startRecording_def getUserMedia_then_def)

text \<open>A start toggle in the idle state, and the denial of its request.\<close>

lemma denied:
  assumes "\<not> isRecording s" "mediaDevices s" "\<not> vb_disabled (voiceButton s)"
  shows "run [ClickVoice, MicDenied (micRequests s)] s =
     s\<lparr>micRequests := Suc (micRequests s),
       micAwaiting := removeAll (micRequests s) (micAwaiting s),
       console := console s @ [asc ''Error accessing microphone:''],
       alerts := alerts s @ [asc ''Could not access microphone. Please check permissions.'']\<rparr>"
  using assms
  by (simp add: toggleVoiceRecording_def startRecording_def getUserMedia_catch_def
      console_error_def)

text \<open>
  A start toggle in the idle state and the grant of its request, on a host where the
  callback throws: the chained \<open>catch\<close> shows the alert, the recorder stays idle, and
  no track of the granted stream is stopped.
\<close>

lemma constructor_throws:
  assumes "\<not> isRecording s" "mediaDevices s" "\<not> vb_disabled (voiceButton s)"
    and "recorderHost s = NoMediaRecorder"
  shows "run [ClickVoice, MicGranted (micRequests s)] s =
     s\<lparr>micRequests := Suc (micRequests s),
       micAwaiting := removeAll (micRequests s) (micAwaiting s),
       console := console s @ [asc ''Error accessing microphone:''],
       alerts := alerts s @ [asc ''Could not access microphone. Please check permissions.'']\<rparr>"
  using assms
  by (simp add: toggleVoiceRecording_def startRecording_def getUserMedia_then_def
      getUserMedia_catch_def console_error_def)

lemma start_throws:
  assumes "\<not> isRecording s" "mediaDevices s" "\<not> vb_disabled (voiceButton s)"
    and "recorderHost s = StartThrows"
  shows "run [ClickVoice, MicGranted (micRequests s)] s =
     s\<lparr>micRequests := Suc (micRequests s),
       micAwaiting := removeAll (micRequests s) (micAwaiting s),
       recorders := recorders s @ [\<lparr>rec_stream = micRequests s, rec_state = Inactive\<rparr>],
       mediaRecorder := Some (length (recorders s)),
       audioChunks := [],
       console := console s @ [asc ''Error accessing microphone:''],
       alerts := alerts s @ [asc ''Could not access microphone. Please check permissions.'']\<rparr>"
  using assms
  by (simp add: toggleVoiceRecording_def startRecording_def getUserMedia_then_def
      getUserMedia_catch_def console_error_def)

subsection \<open>Initialisation, playback and the Enter key\<close>

lemma init_explicit:
  "fetches (init s) =
     fetches s @ [\<lparr>req_method = asc ''GET'', req_url = asc ''/api/tasks?user_id=default_user'',
                   req_payload = NoBody\<rparr>]
   \<and> vb_disabled (voiceButton (init s)) = (vb_disabled (voiceButton s) \<or> \<not> mediaDevices s)
   \<and> vb_title (voiceButton (init s)) =
       (if mediaDevices s then vb_title (voiceButton s)
        else asc ''Voice input not supported in your browser'')
   \<and> filterButtons (init s) = filterButtons s \<and> tasksList (init s) = tasksList s"
  by (simp add: init_def loadTasks_def fetch_def tasks_request_explicit)

lemma voice_success_plays:
  assumes "chatMessages s \<noteq> []"
  shows "played (sendVoiceRecording_resume (Http True (Some d)) s) =
           (case data_voice_data d of
              None \<Rightarrow> played s
            | Some v \<Rightarrow> if v = [] then played s
                        else played s @ [asc ''data:audio/mp3;base64,'' @ v])"
  using assms
  by (simp add: sendVoiceRecording_resume_def Let_def addMessageToUI_def
      playAudioResponse_def voice_catch loadTasks_def fetch_def truthy_def textContent_def
      split: option.splits)

lemma keydown_explicit:
  "step (KeyDown key shift) s =
     (if key = [69, 110, 116, 101, 114] \<and> \<not> shift then sendMessage s else s)"
  by (simp add: asc_def)

subsection \<open>The filter buttons\<close>

lemma filterButtons_click:
  "filterButtons (filterClick i s) =
     (map (\<lambda>b. b\<lparr>fb_active := False\<rparr>) (filterButtons s))
       [i := (filterButtons s ! i)\<lparr>fb_active := True\<rparr>]" if "i < length (filterButtons s)"
  using that by (simp add: filterClick_def Let_def loadTasks_def fetch_def)

lemma active_click:
  assumes "i < length (filterButtons s)"
  shows "map fb_active (filterButtons (filterClick i s)) =
           (replicate (length (filterButtons s)) False)[i := True]"
  using assms by (simp add: filterButtons_click map_update map_replicate_const [symmetric] comp_def)

lemma filter_replicate_update:
  "i < n \<Longrightarrow> filter (\<lambda>x. x) ((replicate n False)[i := True]) = [True]"
  by (simp add: upd_conv_take_nth_drop)

lemma one_active_click:
  assumes "i < length (filterButtons s)"
  shows "one_active (filterClick i s)"
proof -
  have "length (filter fb_active (filterButtons (filterClick i s))) =
        length (filter (\<lambda>x. x) (map fb_active (filterButtons (filterClick i s))))"
    by (simp add: filter_map comp_def)
  also have "\<dots> = 1"
    using assms by (simp add: active_click filter_replicate_update)
  finally show ?thesis by (simp add: one_active_def)
qed

lemma find_click:
  assumes "i < length bs"
  shows "find fb_active ((map (\<lambda>b. b\<lparr>fb_active := False\<rparr>) bs)[i := (bs ! i)\<lparr>fb_active := True\<rparr>])
           = Some ((bs ! i)\<lparr>fb_active := True\<rparr>)"
  using assms by (simp add: find_Some_iff) (rule exI [of _ i], simp)

lemma activeFilter_click:
  assumes "i < length (filterButtons s)"
  shows "activeFilter (filterClick i s) = Some (fb_filter (filterButtons s ! i))"
  using assms by (simp add: activeFilter_def filterButtons_click find_click)

lemma fetches_click:
  assumes "i < length (filterButtons s)"
  shows "fetches (filterClick i s) = fetches s @ [tasks_request (fb_filter (filterButtons s ! i))]"
  using assms by (simp add: filterClick_def Let_def loadTasks_def fetch_def)

lemma filterButtons_resume: "filterButtons (resume c r s) = filterButtons s"
  by (cases c; cases r)
     (simp_all add: resume_def fetchChatResponse_resume_def loadTasks_resume_def
        updateTaskStatus_resume_def sendVoiceRecording_resume_def Let_def
        fetchChatResponse_catch_def loadTasks_catch_def updateTaskStatus_catch_def
        sendVoiceRecording_catch_def addMessageToUI_def console_error_def loadTasks_def
        fetch_def renderTasks_def playAudioResponse_def split: option.splits)

lemma filterButtons_step:
  "filterButtons (step e s) = filterButtons s" if "\<And>i. e \<noteq> ClickFilter i"
proof (cases e)
  case (ClickFilter i)
  with that show ?thesis by blast
qed (simp_all add: sendMessage_def Let_def fetchChatResponse_def fetch_def addMessageToUI_def
        toggleVoiceRecording_def startRecording_def stopRecording_def clickAction_def
        updateTaskStatus_def filterButtons_resume getUserMedia_then_def getUserMedia_catch_def
        console_error_def recorder_ondataavailable_def recorder_onstop_def
        sendVoiceRecording_def
        split: option.splits panel_node.splits action.splits recorder_host.splits)

lemma one_active_step: "one_active s \<Longrightarrow> one_active (step e s)"
proof (cases "\<exists>i. e = ClickFilter i")
  case True
  assume a: "one_active s"
  from True obtain i where e: "e = ClickFilter i" by blast
  show ?thesis using a by (simp add: e one_active_click)
next
  case False
  assume "one_active s"
  with False show ?thesis by (simp add: one_active_def filterButtons_step)
qed

lemma one_active_run: "one_active s \<Longrightarrow> one_active (run es s)"
  by (induction es arbitrary: s) (simp_all add: one_active_step)

text \<open>
  With exactly one active button, reading the active filter does not throw; together
  with \<open>one_active_run\<close> this holds at any time on a page that starts with one.
\<close>

lemma one_active_filter: "one_active s \<Longrightarrow> activeFilter s \<noteq> None"
proof -
  assume "one_active s"
  then have "filter fb_active (filterButtons s) \<noteq> []"
    by (auto simp: one_active_def)
  then show ?thesis
    by (auto simp: activeFilter_def find_None_iff filter_empty_conv)
qed

lemma tasksList_click: "tasksList (filterClick i s) = tasksList s"
  by (simp add: filterClick_def Let_def loadTasks_def fetch_def)

lemma settle_click:
  assumes "i < length (filterButtons s)" and "map_of (awaiting s) (length (fetches s)) = None"
  shows "step (Settle (length (fetches s)) r) (step (ClickFilter i) s) =
           loadTasks_resume r ((filterClick i s)\<lparr>awaiting := awaiting s\<rparr>)"
proof -
  have a: "awaiting (filterClick i s) = awaiting s @ [(length (fetches s), AfterTasks)]"
    by (simp add: filterClick_def Let_def loadTasks_def fetch_def)
  have n: "\<forall>p \<in> set (awaiting s). fst p \<noteq> length (fetches s)"
    using assms(2) by (force simp: map_of_eq_None_iff)
  then have f: "filter (\<lambda>p. fst p \<noteq> length (fetches s)) (awaiting s) = awaiting s"
    by (simp add: filter_id_conv)
  show ?thesis
    using assms by (simp add: a map_add_def resume_def f split: option.splits)
qed

subsection \<open>The chat is not empty when a voice response arrives\<close>

text \<open>
  Messages are never removed, and \<open>sendVoiceRecording\<close> appends the placeholder before
  it sends; so on a page that starts with no request in flight, whenever a voice upload
  is in flight the chat has a message.
\<close>

lemmas handler_defs =
  sendMessage_def fetchChatResponse_def fetch_def addMessageToUI_def
  toggleVoiceRecording_def startRecording_def stopRecording_def clickAction_def
  updateTaskStatus_def getUserMedia_then_def getUserMedia_catch_def
  console_error_def recorder_ondataavailable_def recorder_onstop_def
  sendVoiceRecording_def filterClick_def loadTasks_def

lemmas resume_defs =
  resume_def fetchChatResponse_resume_def loadTasks_resume_def
  updateTaskStatus_resume_def sendVoiceRecording_resume_def
  fetchChatResponse_catch_def loadTasks_catch_def updateTaskStatus_catch_def
  sendVoiceRecording_catch_def addMessageToUI_def console_error_def loadTasks_def
  fetch_def renderTasks_def playAudioResponse_def










subsection \<open>What the task panel shows\<close>

text \<open>
  Only the delivery of a response to a \<open>/api/tasks\<close> request writes the panel, and
  what it writes depends on the response alone.
\<close>

lemma tasksList_resume:
  "tasksList (resume c r s) =
     (if c = AfterTasks then
        (case r of
           TransportError \<Rightarrow> [NoTasks (asc ''Error loading tasks'')]
         | Http ok b \<Rightarrow>
             if ok then
               (case b of
                  None \<Rightarrow> [NoTasks (asc ''Error loading tasks'')]
                | Some d \<Rightarrow>
                    (case data_tasks d of
                       None \<Rightarrow> [NoTasks (asc ''No tasks yet. Ask me to remind you about something!'')]
                     | Some ts \<Rightarrow>
                         if ts = []
                         then [NoTasks (asc ''No tasks yet. Ask me to remind you about something!'')]
                         else map (\<lambda>t. TaskItem (taskDiv t)) ts))
             else [NoTasks (asc ''Error loading tasks'')])
      else tasksList s)"
  by (cases c; cases r)
     (simp_all add: resume_defs Let_def no_tasks_yet_def split: option.splits)

lemma tasksList_step:
  "tasksList (step e s) =
     (case e of
        Settle k r \<Rightarrow>
          if map_of (awaiting s) k = Some AfterTasks then
            (case r of
               TransportError \<Rightarrow> [NoTasks (asc ''Error loading tasks'')]
             | Http ok b \<Rightarrow>
                 if ok then
                   (case b of
                      None \<Rightarrow> [NoTasks (asc ''Error loading tasks'')]
                    | Some d \<Rightarrow>
                        (case data_tasks d of
                           None \<Rightarrow> [NoTasks (asc ''No tasks yet. Ask me to remind you about something!'')]
                         | Some ts \<Rightarrow>
                             if ts = []
                             then [NoTasks (asc ''No tasks yet. Ask me to remind you about something!'')]
                             else map (\<lambda>t. TaskItem (taskDiv t)) ts))
                 else [NoTasks (asc ''Error loading tasks'')])
          else tasksList s
      | _ \<Rightarrow> tasksList s)"
proof (cases e)
  case (Settle k r)
  show ?thesis
  proof (cases "map_of (awaiting s) k")
    case None
    with Settle show ?thesis by simp
  next
    case (Some c)
    with Settle show ?thesis by (simp add: tasksList_resume)
  qed
qed (simp_all add: handler_defs Let_def
       split: option.splits panel_node.splits action.splits recorder_host.splits)

lemma settle_update:
  assumes "map_of (awaiting s) k = Some AfterUpdate" and "activeFilter s = Some flt"
    and "map_of (awaiting s) (length (fetches s)) = None"
  shows "run [Settle k (Http True b), Settle (length (fetches s)) r] s =
           loadTasks_resume r
             (s\<lparr>fetches := fetches s @ [tasks_request flt],
                awaiting := filter (\<lambda>p. fst p \<noteq> k) (awaiting s)\<rparr>)"
proof -
  let ?n = "length (fetches s)"
  let ?a = "filter (\<lambda>p. fst p \<noteq> k) (awaiting s)"
  have s1: "step (Settle k (Http True b)) s =
              s\<lparr>fetches := fetches s @ [tasks_request flt], awaiting := ?a @ [(?n, AfterTasks)]\<rparr>"
  proof -
    have af: "activeFilter (s\<lparr>awaiting := ?a\<rparr>) = Some flt"
      using assms(2) by (simp add: activeFilter_def)
    show ?thesis
      using assms(1)
      by (simp add: resume_def updateTaskStatus_resume_def af loadTasks_def fetch_def)
  qed
  have n: "\<forall>p \<in> set (awaiting s). fst p \<noteq> ?n"
    using assms(3) by (force simp: map_of_eq_None_iff)
  then have m: "map_of ?a ?n = None"
    by (force simp: map_of_eq_None_iff)
  have f: "filter (\<lambda>p. fst p \<noteq> ?n) ?a = ?a"
    using n by (auto intro: filter_cong)
  have "run [Settle k (Http True b), Settle ?n r] s =
          step (Settle ?n r) (step (Settle k (Http True b)) s)"
    by simp
  also have "\<dots> = step (Settle ?n r)
      (s\<lparr>fetches := fetches s @ [tasks_request flt], awaiting := ?a @ [(?n, AfterTasks)]\<rparr>)"
    by (simp only: s1)
  also have "\<dots> = loadTasks_resume r
             (s\<lparr>fetches := fetches s @ [tasks_request flt], awaiting := ?a\<rparr>)"
    by (simp add: m map_add_def resume_def f del: filter_filter)
  finally show ?thesis .
qed

lemma update_clicked: "step (ClickAction 0 0) pending_page = updating_page"
  by (simp add: updating_page_def pending_page_def example_page_def clickAction_def taskDiv_def
      example_task_def updateTaskStatus_def fetch_def)

section \<open>Chat transport\<close>

text \<open>
  C4. When the trimmed value of the input field is empty, \<open>sendMessage\<close> changes
  nothing: no request is sent, no message is appended, the input field keeps its value.
  The same holds for the two events that call it, a click on the send button and Enter.
\<close>

theorem sendMessage_blank:
  "trim (userInput s) = [] \<Longrightarrow>
     sendMessage s = s \<and> step ClickSend s = s \<and> step (KeyDown key shift) s = s"
  by (simp add: sendMessage_def)

theorem sendMessage_blank_witness:
  "trim (userInput example_page) = [] \<and> sendMessage example_page = example_page
   \<and> step ClickSend example_page = example_page"
proof -
  have t: "trim (userInput example_page) = []"
    by (simp add: example_page_def trim_def isWhiteSpace_def)
  from sendMessage_blank [OF t] t show ?thesis by simp
qed





section \<open>Voice upload\<close>

text \<open>
  C8. When the \<open>/api/voice\<close> upload fails (the transport fails or the status is not a
  success), exactly one message is appended: an assistant message with the fixed text
  \<open>Sorry, there was an error processing your voice message.\<close> Every earlier message
  keeps its text: after \<open>sendVoiceRecording\<close> the chat ends with the placeholder, a
  user message still showing its processing text, followed by that fallback.
\<close>

theorem voice_failure:
  assumes "r = TransportError \<or> r = Http False b"
  shows "chatMessages (sendVoiceRecording_resume r s) =
           chatMessages s @
             [\<lparr>msg_sender = Assistant, msg_avatar = [55358, 56598],
               msg_text = asc ''Sorry, there was an error processing your voice message.''\<rparr>]
         \<and> chatMessages (sendVoiceRecording_resume r (sendVoiceRecording audioBlob s)) =
           chatMessages s @
             [\<lparr>msg_sender = User, msg_avatar = [55357, 56420],
               msg_text = [55356, 57252] @ asc '' Processing voice message...''\<rparr>,
              \<lparr>msg_sender = Assistant, msg_avatar = [55358, 56598],
               msg_text = asc ''Sorry, there was an error processing your voice message.''\<rparr>]"
proof -
  have c: "sendVoiceRecording_resume r t = sendVoiceRecording_catch t" for t
    using assms(1) by (auto simp: sendVoiceRecording_resume_def)
  show ?thesis
    by (simp add: c voice_catch sendVoiceRecording_def fetch_def addMessageToUI_def
        messageDiv_user messageDiv_assistant voice_error_text_def processing_text_def)
qed

theorem voice_failure_witness:
  "chatMessages (sendVoiceRecording_resume (Http False None)
      (sendVoiceRecording [1, 2] example_page)) =
     [\<lparr>msg_sender = User, msg_avatar = [55357, 56420],
       msg_text = [55356, 57252, 32, 80, 114, 111, 99, 101, 115, 115, 105, 110, 103, 32, 118,
                   111, 105, 99, 101, 32, 109, 101, 115, 115, 97, 103, 101, 46, 46, 46]\<rparr>,
      \<lparr>msg_sender = Assistant, msg_avatar = [55358, 56598],
       msg_text = [83, 111, 114, 114, 121, 44, 32, 116, 104, 101, 114, 101, 32, 119, 97, 115,
                   32, 97, 110, 32, 101, 114, 114, 111, 114, 32, 112, 114, 111, 99, 101, 115,
                   115, 105, 110, 103, 32, 121, 111, 117, 114, 32, 118, 111, 105, 99, 101, 32,
                   109, 101, 115, 115, 97, 103, 101, 46]\<rparr>]"
proof -
  have e: "chatMessages example_page = []" by (simp add: example_page_def)
  from voice_failure [of "Http False None" None example_page "[1, 2]"] e
  show ?thesis by (simp add: asc_def)
qed



text \<open>
  C3. On a successful \<open>/api/voice\<close> response the script writes the transcription into
  the last message of the chat, which is the placeholder only while nothing was appended
  after it. Here a recording is uploaded (request 0) and the user sends \<open>hi\<close> before
  the response arrives: the placeholder keeps its processing text, the user's message
  \<open>hi\<close> is overwritten by the transcription, and the assistant's reply follows.
\<close>

theorem placeholder_left_behind:
  "chatMessages (run [ClickVoice, MicGranted 0, ClickVoice, RecorderStopped 0,
                      Input (asc ''hi''), ClickSend,
                      Settle 0 (Http True (Some transcript_body))] example_page) =
     [messageDiv User (Some processing_text),
      messageDiv User (Some (asc ''buy milk'')),
      messageDiv Assistant (Some (asc ''buy milk''))]"
  by (simp add: example_page_def toggleVoiceRecording_def startRecording_def stopRecording_def
      getUserMedia_then_def recorder_stop_def recorder_onstop_def sendVoiceRecording_def
      fetch_def addMessageToUI_def sendMessage_def fetchChatResponse_def trim_def
      isWhiteSpace_def asc_def resume_def sendVoiceRecording_resume_def Let_def
      transcript_body_def truthy_def gt0_def messageDiv_def textContent_def)

section \<open>Task sync\<close>

text \<open>
  C9. When a successful \<open>/api/tasks\<close> response carries an empty task list, the panel
  holds the empty-state paragraph with its literal text and nothing else: no task card,
  whatever cards were shown before.
\<close>

theorem empty_tasks:
  "data_tasks d = Some [] \<Longrightarrow>
     tasksList (loadTasks_resume (Http True (Some d)) s) = [NoTasks no_tasks_yet]
     \<and> task_cards (tasksList (loadTasks_resume (Http True (Some d)) s)) = []
     \<and> no_tasks_yet = asc ''No tasks yet. Ask me to remind you about something!''"
  by (simp add: loadTasks_resume_def renderTasks_def task_cards_def no_tasks_yet_def)

theorem empty_tasks_witness:
  "data_tasks example_body = Some []
   \<and> task_cards (tasksList example_page) = [taskDiv example_task]
   \<and> tasksList (loadTasks_resume (Http True (Some example_body)) example_page) =
       [NoTasks no_tasks_yet]
   \<and> task_cards (tasksList (loadTasks_resume (Http True (Some example_body)) example_page)) = []"
proof -
  have a: "data_tasks example_body = Some []" by (simp add: example_body_def)
  have b: "task_cards (tasksList example_page) = [taskDiv example_task]"
    by (simp add: example_page_def task_cards_def)
  from empty_tasks [OF a, of example_page] a b show ?thesis by blast
qed

text \<open>
  C6. \<open>updateTaskStatus\<close> never writes the task panel: issuing the update, one
  \<open>PUT\<close> of \<open>/api/tasks/\<close> followed by the id, carrying the status, leaves the panel
  as it is, and so does settling it. When the update succeeds and a filter button is
  active, exactly one request follows: a \<open>GET\<close> of \<open>/api/tasks?user_id=default_user\<close>
  with \<open>&status=\<close> and the active filter appended unless that filter is \<open>all\<close>. When
  the response to that request is delivered next and is a success, the panel is the
  rendering of the tasks it carries. When the update fails only the console changes.
\<close>

theorem update_reloads:
  "tasksList (updateTaskStatus taskId status s) = tasksList s
   \<and> fetches (updateTaskStatus taskId status s) =
       fetches s @ [\<lparr>req_method = asc ''PUT'', req_url = asc ''/api/tasks/'' @ taskId,
                     req_payload = StatusJson status\<rparr>]
   \<and> tasksList (updateTaskStatus_resume r s) = tasksList s
   \<and> (activeFilter s = Some flt \<longrightarrow>
        fetches (updateTaskStatus_resume (Http True b) s) =
          fetches s @
            [\<lparr>req_method = asc ''GET'',
              req_url = (if flt = Some (asc ''all'') then asc ''/api/tasks?user_id=default_user''
                         else asc ''/api/tasks?user_id=default_user&status='' @
                                (case flt of None \<Rightarrow> asc ''undefined'' | Some f \<Rightarrow> f)),
              req_payload = NoBody\<rparr>])
   \<and> (activeFilter s = Some flt \<and> map_of (awaiting s) k = Some AfterUpdate
        \<and> map_of (awaiting s) (length (fetches s)) = None \<longrightarrow>
        tasksList (run [Settle k (Http True b),
                        Settle (length (fetches s)) (Http True (Some d))] s) =
          (case data_tasks d of
             None \<Rightarrow> [NoTasks (asc ''No tasks yet. Ask me to remind you about something!'')]
           | Some ts \<Rightarrow>
               if ts = []
               then [NoTasks (asc ''No tasks yet. Ask me to remind you about something!'')]
               else map (\<lambda>t. TaskItem (taskDiv t)) ts))
   \<and> (r = TransportError \<or> r = Http False b \<longrightarrow>
        updateTaskStatus_resume r s = s\<lparr>console := console s @ [asc ''Error updating task:'']\<rparr>)"
proof -
  have 1: "tasksList (updateTaskStatus taskId status s) = tasksList s"
    by (simp add: updateTaskStatus_def fetch_def)
  have 2: "fetches (updateTaskStatus taskId status s) =
       fetches s @ [\<lparr>req_method = asc ''PUT'', req_url = asc ''/api/tasks/'' @ taskId,
                     req_payload = StatusJson status\<rparr>]"
    by (simp add: updateTaskStatus_def fetch_def update_request_explicit)
  have 3: "activeFilter s = Some flt \<Longrightarrow>
        fetches (updateTaskStatus_resume (Http True b) s) =
          fetches s @
            [\<lparr>req_method = asc ''GET'',
              req_url = (if flt = Some (asc ''all'') then asc ''/api/tasks?user_id=default_user''
                         else asc ''/api/tasks?user_id=default_user&status='' @
                                (case flt of None \<Rightarrow> asc ''undefined'' | Some f \<Rightarrow> f)),
              req_payload = NoBody\<rparr>]"
    by (simp add: updateTaskStatus_resume_def fetches_loadTasks tasks_request_explicit)
  have 4: "activeFilter s = Some flt \<and> map_of (awaiting s) k = Some AfterUpdate
        \<and> map_of (awaiting s) (length (fetches s)) = None \<Longrightarrow>
        tasksList (run [Settle k (Http True b),
                        Settle (length (fetches s)) (Http True (Some d))] s) =
          (case data_tasks d of
             None \<Rightarrow> [NoTasks (asc ''No tasks yet. Ask me to remind you about something!'')]
           | Some ts \<Rightarrow>
               if ts = []
               then [NoTasks (asc ''No tasks yet. Ask me to remind you about something!'')]
               else map (\<lambda>t. TaskItem (taskDiv t)) ts)"
    by (simp only: settle_update)
       (simp add: loadTasks_resume_def renderTasks_def no_tasks_yet_def split: option.splits)
  have 5: "r = TransportError \<or> r = Http False b \<Longrightarrow>
        updateTaskStatus_resume r s = s\<lparr>console := console s @ [asc ''Error updating task:'']\<rparr>"
    by (auto simp: updateTaskStatus_resume_def updateTaskStatus_catch_def console_error_def)
  show ?thesis using 1 2 tasksList_update_resume [of r s] 3 4 5 by blast
qed

theorem update_reloads_witness:
  "activeFilter pending_page = Some (Some [112, 101, 110, 100, 105, 110, 103])
   \<and> fetches (updateTaskStatus [49] [99, 111, 109, 112, 108, 101, 116, 101, 100] pending_page) =
       [\<lparr>req_method = [80, 85, 84],
         req_url = [47, 97, 112, 105, 47, 116, 97, 115, 107, 115, 47, 49],
         req_payload = StatusJson [99, 111, 109, 112, 108, 101, 116, 101, 100]\<rparr>]
   \<and> fetches (updateTaskStatus_resume (Http True None) pending_page) =
       [\<lparr>req_method = [71, 69, 84],
         req_url = [47, 97, 112, 105, 47, 116, 97, 115, 107, 115, 63, 117, 115, 101, 114, 95,
                    105, 100, 61, 100, 101, 102, 97, 117, 108, 116, 95, 117, 115, 101, 114, 38,
                    115, 116, 97, 116, 117, 115, 61, 112, 101, 110, 100, 105, 110, 103],
         req_payload = NoBody\<rparr>]
   \<and> tasksList (updateTaskStatus_resume (Http True None) pending_page) = tasksList pending_page
   \<and> activeFilter updating_page = Some (Some [112, 101, 110, 100, 105, 110, 103])
   \<and> map_of (awaiting updating_page) 0 = Some AfterUpdate
   \<and> map_of (awaiting updating_page) (length (fetches updating_page)) = None
   \<and> tasksList (run [Settle 0 (Http True None),
                      Settle (length (fetches updating_page)) (Http True (Some updated_tasks))]
        updating_page) =
       [TaskItem
          \<lparr>item_class = [99, 111, 109, 112, 108, 101, 116, 101, 100], item_id = [49],
           item_description = [99, 97, 108, 108, 32, 109, 117, 109],
           item_date = [50, 48, 50, 52, 45, 48, 49, 45, 48, 49, 84, 49, 48, 58, 48, 48, 58, 48, 48],
           item_status = [99, 111, 109, 112, 108, 101, 116, 101, 100],
           item_actions = [Button [82, 101, 111, 112, 101, 110] [49]
                             [112, 101, 110, 100, 105, 110, 103]]\<rparr>]
   \<and> updateTaskStatus_resume TransportError pending_page =
       pending_page\<lparr>console := console pending_page @
         [[69, 114, 114, 111, 114, 32, 117, 112, 100, 97, 116, 105, 110, 103, 32, 116, 97,
           115, 107, 58]]\<rparr>"
proof -
  have f: "fetches pending_page = []"
    by (simp add: pending_page_def example_page_def)
  have u1: "activeFilter updating_page = Some (Some (asc ''pending''))"
    by (simp add: updating_page_def activeFilter_def pending_page_def)
  have u2: "map_of (awaiting updating_page) 0 = Some AfterUpdate"
    by (simp add: updating_page_def)
  have u3: "map_of (awaiting updating_page) (length (fetches updating_page)) = None"
    by (simp add: updating_page_def)
  have d: "data_tasks updated_tasks = Some [example_task\<lparr>task_status := asc ''completed''\<rparr>]"
    by (simp add: updated_tasks_def)
  note A = update_reloads [of "asc ''1''" "asc ''completed''" pending_page "Http True None"
         "Some (asc ''pending'')" None 0 updated_tasks]
  note B = update_reloads [of "asc ''1''" "asc ''completed''" updating_page "Http True None"
         "Some (asc ''pending'')" None 0 updated_tasks]
  note C = update_reloads [of "asc ''1''" "asc ''completed''" pending_page TransportError
         "Some (asc ''pending'')" None 0 updated_tasks]
  note c2 = A [THEN conjunct2, THEN conjunct1]
  note c3 = A [THEN conjunct2, THEN conjunct2, THEN conjunct1]
  note c4 = A [THEN conjunct2, THEN conjunct2, THEN conjunct2, THEN conjunct1, THEN mp,
               OF activeFilter_pending]
  note c5 = B [THEN conjunct2, THEN conjunct2, THEN conjunct2, THEN conjunct2, THEN conjunct1,
               THEN mp, OF conjI [OF u1 conjI [OF u2 u3]]]
  note c6 = C [THEN conjunct2, THEN conjunct2, THEN conjunct2, THEN conjunct2, THEN conjunct2,
               THEN mp, OF disjI1 [OF refl]]
  have p: "activeFilter pending_page = Some (Some [112, 101, 110, 100, 105, 110, 103])"
    using activeFilter_pending by (simp add: asc_def)
  have q: "activeFilter updating_page = Some (Some [112, 101, 110, 100, 105, 110, 103])"
    using u1 by (simp add: asc_def)
  have e2: "fetches (updateTaskStatus [49] [99, 111, 109, 112, 108, 101, 116, 101, 100]
              pending_page) =
       [\<lparr>req_method = [80, 85, 84],
         req_url = [47, 97, 112, 105, 47, 116, 97, 115, 107, 115, 47, 49],
         req_payload = StatusJson [99, 111, 109, 112, 108, 101, 116, 101, 100]\<rparr>]"
    using c2 by (simp add: asc_def f)
  have e4: "fetches (updateTaskStatus_resume (Http True None) pending_page) =
       [\<lparr>req_method = [71, 69, 84],
         req_url = [47, 97, 112, 105, 47, 116, 97, 115, 107, 115, 63, 117, 115, 101, 114, 95,
                    105, 100, 61, 100, 101, 102, 97, 117, 108, 116, 95, 117, 115, 101, 114, 38,
                    115, 116, 97, 116, 117, 115, 61, 112, 101, 110, 100, 105, 110, 103],
         req_payload = NoBody\<rparr>]"
    using c4 by (simp add: asc_def f)
  have e5: "tasksList (run [Settle 0 (Http True None),
                      Settle (length (fetches updating_page)) (Http True (Some updated_tasks))]
        updating_page) =
       [TaskItem
          \<lparr>item_class = [99, 111, 109, 112, 108, 101, 116, 101, 100], item_id = [49],
           item_description = [99, 97, 108, 108, 32, 109, 117, 109],
           item_date = [50, 48, 50, 52, 45, 48, 49, 45, 48, 49, 84, 49, 48, 58, 48, 48, 58, 48, 48],
           item_status = [99, 111, 109, 112, 108, 101, 116, 101, 100],
           item_actions = [Button [82, 101, 111, 112, 101, 110] [49]
                             [112, 101, 110, 100, 105, 110, 103]]\<rparr>]"
    unfolding c5 by (simp add: d taskDiv_def example_task_def asc_def)
  have e6: "updateTaskStatus_resume TransportError pending_page =
       pending_page\<lparr>console := console pending_page @
         [[69, 114, 114, 111, 114, 32, 117, 112, 100, 97, 116, 105, 110, 103, 32, 116, 97,
           115, 107, 58]]\<rparr>"
    using c6 by (simp add: asc_def)
  from p e2 e4 c3 q u2 u3 e5 e6 show ?thesis by blast
qed

text \<open>
  The panel after a successful update is not always the result of the reload. With
  \<open>pending\<close> clicked (request 0), the card's \<open>Complete\<close> clicked (request 1) and the
  update answered (reload, request 2): the reload's response carries no task and the
  panel shows the empty state; then the response to request 0 arrives, fetched before
  the update, and the panel shows the task as pending again, with nothing in flight.
\<close>

theorem stale_update:
  "map req_method (fetches (run [ClickFilter 1, ClickAction 0 0, Settle 1 (Http True None),
                 Settle 2 (Http True (Some no_tasks_body)),
                 Settle 0 (Http True (Some pending_tasks))] example_page)) =
     [asc ''GET'', asc ''PUT'', asc ''GET'']
   \<and> map req_url (fetches (run [ClickFilter 1, ClickAction 0 0, Settle 1 (Http True None),
                 Settle 2 (Http True (Some no_tasks_body)),
                 Settle 0 (Http True (Some pending_tasks))] example_page)) =
     [asc ''/api/tasks?user_id=default_user&status=pending'', asc ''/api/tasks/1'',
      asc ''/api/tasks?user_id=default_user&status=pending'']
   \<and> data_tasks no_tasks_body = Some []
   \<and> tasksList (run [ClickFilter 1, ClickAction 0 0, Settle 1 (Http True None),
                      Settle 2 (Http True (Some no_tasks_body))] example_page) =
     [NoTasks (asc ''No tasks yet. Ask me to remind you about something!'')]
   \<and> tasksList (run [ClickFilter 1, ClickAction 0 0, Settle 1 (Http True None),
                      Settle 2 (Http True (Some no_tasks_body)),
                      Settle 0 (Http True (Some pending_tasks))] example_page) =
     [TaskItem
        \<lparr>item_class = asc ''pending'', item_id = asc ''1'',
         item_description = asc ''call mum'', item_date = asc ''2024-01-01T10:00:00'',
         item_status = asc ''pending'',
         item_actions = [Button (asc ''Complete'') (asc ''1'') (asc ''completed'')]\<rparr>]
   \<and> activeFilter (run [ClickFilter 1, ClickAction 0 0, Settle 1 (Http True None),
                      Settle 2 (Http True (Some no_tasks_body)),
                      Settle 0 (Http True (Some pending_tasks))] example_page) =
     Some (Some (asc ''pending''))
   \<and> awaiting (run [ClickFilter 1, ClickAction 0 0, Settle 1 (Http True None),
                      Settle 2 (Http True (Some no_tasks_body)),
                      Settle 0 (Http True (Some pending_tasks))] example_page) = []"
  by (simp add: example_page_def filterClick_def loadTasks_def fetch_def clickAction_def
      taskDiv_def example_task_def updateTaskStatus_def tasks_request_explicit
      update_request_explicit no_tasks_yet_def
      resume_def loadTasks_resume_def updateTaskStatus_resume_def renderTasks_def
      no_tasks_body_def pending_tasks_def activeFilter_def Let_def asc_def)

section \<open>The filter buttons\<close>

text \<open>
  C7. A click on a filter button removes the active mark from every button, marks the
  clicked one, and issues one request, a \<open>GET\<close> of \<open>/api/tasks?user_id=default_user\<close>
  with \<open>&status=\<close> and the button's filter appended unless that filter is \<open>all\<close>,
  without touching the panel; so exactly one button is active after a click, and a page
  that has exactly one active button keeps exactly one through every run of events. The
  panel changes only when the response to a \<open>/api/tasks\<close> request is delivered, and then
  shows what that response carries, whichever filter is active: its tasks, the
  empty-state paragraph when it has none, the error paragraph when it failed. When the
  response to a click's own request is delivered right after the click and is a success,
  the panel is the rendering of its tasks.
\<close>

theorem filter_click:
  assumes "i < length (filterButtons s)"
  shows "map fb_active (filterButtons (step (ClickFilter i) s)) =
           (replicate (length (filterButtons s)) False)[i := True]
         \<and> one_active (step (ClickFilter i) s)
         \<and> activeFilter (step (ClickFilter i) s) = Some (fb_filter (filterButtons s ! i))
         \<and> fetches (step (ClickFilter i) s) =
             fetches s @
               [\<lparr>req_method = asc ''GET'',
                 req_url =
                   (if fb_filter (filterButtons s ! i) = Some (asc ''all'')
                    then asc ''/api/tasks?user_id=default_user''
                    else asc ''/api/tasks?user_id=default_user&status='' @
                           (case fb_filter (filterButtons s ! i) of
                              None \<Rightarrow> asc ''undefined'' | Some f \<Rightarrow> f)),
                 req_payload = NoBody\<rparr>]
         \<and> tasksList (step (ClickFilter i) s) = tasksList s
         \<and> (one_active t \<longrightarrow> one_active (run es t))
         \<and> (map_of (awaiting s) (length (fetches s)) = None \<longrightarrow>
              tasksList (step (Settle (length (fetches s)) (Http True (Some d)))
                          (step (ClickFilter i) s)) =
              (case data_tasks d of
                 None \<Rightarrow>
                   [NoTasks (asc ''No tasks yet. Ask me to remind you about something!'')]
               | Some ts \<Rightarrow>
                   if ts = []
                   then [NoTasks (asc ''No tasks yet. Ask me to remind you about something!'')]
                   else map (\<lambda>t. TaskItem (taskDiv t)) ts))
         \<and> tasksList (step e t) =
             (case e of
                Settle k r \<Rightarrow>
                  if map_of (awaiting t) k = Some AfterTasks then
                    (case r of
                       TransportError \<Rightarrow> [NoTasks (asc ''Error loading tasks'')]
                     | Http ok b \<Rightarrow>
                         if ok then
                           (case b of
                              None \<Rightarrow> [NoTasks (asc ''Error loading tasks'')]
                            | Some d \<Rightarrow>
                                (case data_tasks d of
                                   None \<Rightarrow> [NoTasks (asc ''No tasks yet. Ask me to remind you about something!'')]
                                 | Some ts \<Rightarrow>
                                     if ts = []
                                     then [NoTasks (asc ''No tasks yet. Ask me to remind you about something!'')]
                                     else map (\<lambda>t. TaskItem (taskDiv t)) ts))
                         else [NoTasks (asc ''Error loading tasks'')])
                  else tasksList t
              | _ \<Rightarrow> tasksList t)"
proof -
  have r: "tasksList (loadTasks_resume (Http True (Some d)) u) =
              (case data_tasks d of
                 None \<Rightarrow>
                   [NoTasks (asc ''No tasks yet. Ask me to remind you about something!'')]
               | Some ts \<Rightarrow>
                   if ts = []
                   then [NoTasks (asc ''No tasks yet. Ask me to remind you about something!'')]
                   else map (\<lambda>t. TaskItem (taskDiv t)) ts)" for u
    by (simp add: loadTasks_resume_def renderTasks_def no_tasks_yet_def split: option.splits)
  have s: "map_of (awaiting s) (length (fetches s)) = None \<Longrightarrow>
              tasksList (step (Settle (length (fetches s)) (Http True (Some d)))
                          (step (ClickFilter i) s)) =
              (case data_tasks d of
                 None \<Rightarrow>
                   [NoTasks (asc ''No tasks yet. Ask me to remind you about something!'')]
               | Some ts \<Rightarrow>
                   if ts = []
                   then [NoTasks (asc ''No tasks yet. Ask me to remind you about something!'')]
                   else map (\<lambda>t. TaskItem (taskDiv t)) ts)"
    by (simp only: settle_click [OF assms] r)
  have c: "step (ClickFilter i) s = filterClick i s" using assms by simp
  show ?thesis
    unfolding c
    using active_click [OF assms] one_active_click [OF assms] activeFilter_click [OF assms]
      fetches_click [OF assms, unfolded tasks_request_explicit]
      tasksList_click [of i s] one_active_run [of t es] s [unfolded c]
      tasksList_step [of e t]
    by blast
qed

theorem filter_click_witness:
  "2 < length (filterButtons example_page)
   \<and> map fb_active (filterButtons (step (ClickFilter 2) example_page)) = [False, False, True]
   \<and> activeFilter (step (ClickFilter 2) example_page) =
       Some (Some [99, 111, 109, 112, 108, 101, 116, 101, 100])
   \<and> fetches (step (ClickFilter 2) example_page) =
       [\<lparr>req_method = [71, 69, 84],
         req_url = [47, 97, 112, 105, 47, 116, 97, 115, 107, 115, 63, 117, 115, 101, 114,
                    95, 105, 100, 61, 100, 101, 102, 97, 117, 108, 116, 95, 117, 115, 101,
                    114, 38, 115, 116, 97, 116, 117, 115, 61, 99, 111, 109, 112, 108, 101,
                    116, 101, 100],
         req_payload = NoBody\<rparr>]
   \<and> one_active example_page
   \<and> one_active (run [ClickFilter 1, ClickSend, ClickFilter 0] example_page)
   \<and> map_of (awaiting example_page) (length (fetches example_page)) = None
   \<and> tasksList (step (Settle (length (fetches example_page)) (Http True (Some completed_tasks)))
        (step (ClickFilter 2) example_page)) =
       [TaskItem
          \<lparr>item_class = [99, 111, 109, 112, 108, 101, 116, 101, 100], item_id = [50],
           item_description = [98, 117, 121, 32, 109, 105, 108, 107],
           item_date = [50, 48, 50, 52, 45, 48, 49, 45, 48, 50, 84, 48, 57, 58, 48, 48, 58, 48, 48],
           item_status = [99, 111, 109, 112, 108, 101, 116, 101, 100],
           item_actions = [Button [82, 101, 111, 112, 101, 110] [50]
                             [112, 101, 110, 100, 105, 110, 103]]\<rparr>]
   \<and> tasksList (step (Settle 0 TransportError) (step (ClickFilter 2) example_page)) =
       [NoTasks [69, 114, 114, 111, 114, 32, 108, 111, 97, 100, 105, 110, 103, 32, 116, 97, 115, 107, 115]]
   \<and> tasksList (step ClickSend example_page) = tasksList example_page"
proof -
  have l: "2 < length (filterButtons example_page)" by (simp add: example_page_def)
  have o: "one_active example_page" by (simp add: one_active_def example_page_def)
  have m: "map_of (awaiting example_page) (length (fetches example_page)) = None"
    by (simp add: example_page_def)
  have v: "fetches example_page = []"
    "fb_filter (filterButtons example_page ! 2) = Some (asc ''completed'')"
    "length (filterButtons example_page) = 3"
    by (simp_all add: example_page_def)
  have d: "data_tasks completed_tasks = Some [done_task]"
    by (simp add: completed_tasks_def)
  have a: "awaiting (step (ClickFilter 2) example_page) = [(0, AfterTasks)]"
    by (simp add: example_page_def filterClick_def loadTasks_def fetch_def Let_def)
  note A = filter_click [OF l, of example_page "[ClickFilter 1, ClickSend, ClickFilter 0]"
         completed_tasks ClickSend]
  note B = filter_click [OF l, of "step (ClickFilter 2) example_page" "[]" completed_tasks
         "Settle 0 TransportError"]
  note c1 = A [THEN conjunct1]
  note c3 = A [THEN conjunct2, THEN conjunct2, THEN conjunct1]
  note c4 = A [THEN conjunct2, THEN conjunct2, THEN conjunct2, THEN conjunct1]
  note c6 = A [THEN conjunct2, THEN conjunct2, THEN conjunct2, THEN conjunct2, THEN conjunct2,
               THEN conjunct1, THEN mp, OF o]
  note c7 = A [THEN conjunct2, THEN conjunct2, THEN conjunct2, THEN conjunct2, THEN conjunct2,
               THEN conjunct2, THEN conjunct1, THEN mp, OF m]
  note c8 = B [THEN conjunct2, THEN conjunct2, THEN conjunct2, THEN conjunct2, THEN conjunct2,
               THEN conjunct2, THEN conjunct2]
  note c9 = A [THEN conjunct2, THEN conjunct2, THEN conjunct2, THEN conjunct2, THEN conjunct2,
               THEN conjunct2, THEN conjunct2]
  have e1: "map fb_active (filterButtons (step (ClickFilter 2) example_page)) =
              [False, False, True]"
    unfolding c1 by (simp add: v numeral_3_eq_3)
  have e3: "activeFilter (step (ClickFilter 2) example_page) =
       Some (Some [99, 111, 109, 112, 108, 101, 116, 101, 100])"
    unfolding c3 by (simp add: v asc_def)
  have e4: "fetches (step (ClickFilter 2) example_page) =
       [\<lparr>req_method = [71, 69, 84],
         req_url = [47, 97, 112, 105, 47, 116, 97, 115, 107, 115, 63, 117, 115, 101, 114,
                    95, 105, 100, 61, 100, 101, 102, 97, 117, 108, 116, 95, 117, 115, 101,
                    114, 38, 115, 116, 97, 116, 117, 115, 61, 99, 111, 109, 112, 108, 101,
                    116, 101, 100],
         req_payload = NoBody\<rparr>]"
    unfolding c4 by (simp add: v asc_def)
  have e7: "tasksList (step (Settle (length (fetches example_page))
                (Http True (Some completed_tasks))) (step (ClickFilter 2) example_page)) =
       [TaskItem
          \<lparr>item_class = [99, 111, 109, 112, 108, 101, 116, 101, 100], item_id = [50],
           item_description = [98, 117, 121, 32, 109, 105, 108, 107],
           item_date = [50, 48, 50, 52, 45, 48, 49, 45, 48, 50, 84, 48, 57, 58, 48, 48, 58, 48, 48],
           item_status = [99, 111, 109, 112, 108, 101, 116, 101, 100],
           item_actions = [Button [82, 101, 111, 112, 101, 110] [50]
                             [112, 101, 110, 100, 105, 110, 103]]\<rparr>]"
    unfolding c7 by (simp add: d taskDiv_def done_task_def asc_def)
  have e8: "tasksList (step (Settle 0 TransportError) (step (ClickFilter 2) example_page)) =
       [NoTasks [69, 114, 114, 111, 114, 32, 108, 111, 97, 100, 105, 110, 103, 32, 116, 97, 115, 107, 115]]"
    unfolding c8 a by (simp add: asc_def)
  have e9: "tasksList (step ClickSend example_page) = tasksList example_page"
    unfolding c9 by simp
  from l e1 e3 e4 o c6 m e7 e8 e9 show ?thesis by blast
qed

text \<open>
  The panel does not follow the active filter when responses arrive out of order: two
  clicks, on \<open>pending\<close> and then on \<open>completed\<close>, whose responses are delivered in
  the opposite order, leave \<open>completed\<close> active and the pending task on the panel, with
  no request outstanding.
\<close>

theorem stale_tasks:
  "fetches (run [ClickFilter 1, ClickFilter 2,
                 Settle 1 (Http True (Some completed_tasks)),
                 Settle 0 (Http True (Some pending_tasks))] example_page) =
     [tasks_request (Some (asc ''pending'')), tasks_request (Some (asc ''completed''))]
   \<and> activeFilter (run [ClickFilter 1, ClickFilter 2,
                 Settle 1 (Http True (Some completed_tasks)),
                 Settle 0 (Http True (Some pending_tasks))] example_page) =
     Some (Some (asc ''completed''))
   \<and> tasksList (run [ClickFilter 1, ClickFilter 2,
                 Settle 1 (Http True (Some completed_tasks)),
                 Settle 0 (Http True (Some pending_tasks))] example_page) =
     [TaskItem (taskDiv example_task)]
   \<and> task_status example_task = asc ''pending''
   \<and> awaiting (run [ClickFilter 1, ClickFilter 2,
                 Settle 1 (Http True (Some completed_tasks)),
                 Settle 0 (Http True (Some pending_tasks))] example_page) = []"
  by (simp add: example_page_def filterClick_def loadTasks_def fetch_def
      resume_def loadTasks_resume_def renderTasks_def completed_tasks_def pending_tasks_def
      example_task_def activeFilter_def Let_def)

section \<open>The recorder\<close>

text \<open>
  C1. Starting idle, with media devices present and the voice button enabled. On a host
  that can build and start a recorder: a toggle, the grant of its microphone request, a
  second toggle and the recorder's stop event (with any data events in between) issue
  exactly one request, a \<open>POST\<close> to \<open>/api/voice\<close> carrying the clip made of the chunks
  recorded, of type \<open>audio/mp3\<close>, and the user id; they stop the tracks of exactly one
  stream, the one granted; and the recorder is idle again. When the request is denied
  instead, the recorder stays idle, no request is issued, no track is stopped, no
  recorder is created and one alert is shown. \<open>startRecording\<close> while recording and
  \<open>stopRecording\<close> while idle change nothing.
\<close>

theorem record_once:
  assumes "\<not> isRecording s" and "mediaDevices s" and "\<not> vb_disabled (voiceButton s)"
  shows "(recorderHost s = Records \<longrightarrow>
          (let s' = run ([ClickVoice, MicGranted (micRequests s)]
                         @ map (DataAvailable (length (recorders s))) cs
                         @ [ClickVoice]
                         @ map (DataAvailable (length (recorders s))) ds
                         @ [RecorderStopped (length (recorders s))]) s
           in fetches s' =
                fetches s @
                  [\<lparr>req_method = asc ''POST'', req_url = asc ''/api/voice'',
                    req_payload =
                      VoiceForm (cs @ ds) (asc ''audio/mp3'') (asc ''default_user'')\<rparr>]
              \<and> trackStops s' = trackStops s @ [micRequests s]
              \<and> micRequests s' = Suc (micRequests s)
              \<and> \<not> isRecording s'))
         \<and> \<not> isRecording (run [ClickVoice, MicDenied (micRequests s)] s)
         \<and> fetches (run [ClickVoice, MicDenied (micRequests s)] s) = fetches s
         \<and> trackStops (run [ClickVoice, MicDenied (micRequests s)] s) = trackStops s
         \<and> recorders (run [ClickVoice, MicDenied (micRequests s)] s) = recorders s
         \<and> alerts (run [ClickVoice, MicDenied (micRequests s)] s) =
             alerts s @ [asc ''Could not access microphone. Please check permissions.'']
         \<and> (isRecording t \<longrightarrow> startRecording t = t)
         \<and> (\<not> isRecording t \<longrightarrow> stopRecording t = t)"
proof -
  let ?k = "micRequests s" and ?i = "length (recorders s)"
  have main: "fetches (run ([ClickVoice, MicGranted ?k] @ map (DataAvailable ?i) cs
                @ [ClickVoice] @ map (DataAvailable ?i) ds @ [RecorderStopped ?i]) s) =
                fetches s @
                  [\<lparr>req_method = asc ''POST'', req_url = asc ''/api/voice'',
                    req_payload =
                      VoiceForm (cs @ ds) (asc ''audio/mp3'') (asc ''default_user'')\<rparr>]
     \<and> trackStops (run ([ClickVoice, MicGranted ?k] @ map (DataAvailable ?i) cs
                @ [ClickVoice] @ map (DataAvailable ?i) ds @ [RecorderStopped ?i]) s) =
          trackStops s @ [?k]
     \<and> micRequests (run ([ClickVoice, MicGranted ?k] @ map (DataAvailable ?i) cs
                @ [ClickVoice] @ map (DataAvailable ?i) ds @ [RecorderStopped ?i]) s) = Suc ?k
     \<and> \<not> isRecording (run ([ClickVoice, MicGranted ?k] @ map (DataAvailable ?i) cs
                @ [ClickVoice] @ map (DataAvailable ?i) ds @ [RecorderStopped ?i]) s)"
    if h: "recorderHost s = Records"
  proof -
    define s2 where "s2 = run [ClickVoice, MicGranted ?k] s"
    have s2: "s2 = s\<lparr>micRequests := Suc (micRequests s),
         micAwaiting := removeAll (micRequests s) (micAwaiting s),
         recorders := recorders s @ [\<lparr>rec_stream = micRequests s, rec_state = Recording\<rparr>],
         mediaRecorder := Some (length (recorders s)),
         audioChunks := [],
         isRecording := True,
         voiceButton := (voiceButton s)\<lparr>vb_text := [9209, 65039],
                                          vb_title := asc ''Stop recording'',
                                          vb_recording := True\<rparr>\<rparr>"
      unfolding s2_def by (rule granted [OF assms h])
    define s3 where "s3 = run (map (DataAvailable ?i) cs) s2"
    have s3: "s3 = s2\<lparr>audioChunks := cs\<rparr>"
      unfolding s3_def by (subst run_DataAvailable) (simp_all add: s2)
    define s4 where "s4 = step ClickVoice s3"
    have s4: "s4 = s3\<lparr>recorders := recorders s @ [\<lparr>rec_stream = ?k, rec_state = Stopping\<rparr>],
                       isRecording := False,
                       voiceButton := (voiceButton s3)\<lparr>vb_text := [55356, 57252],
                                                     vb_title := asc ''Voice Input'',
                                                     vb_recording := False\<rparr>\<rparr>"
      unfolding s4_def using assms(3)
      by (simp add: s3 s2 toggleVoiceRecording_def stopRecording_def recorder_stop_def)
    define s5 where "s5 = run (map (DataAvailable ?i) ds) s4"
    have s5: "s5 = s4\<lparr>audioChunks := cs @ ds\<rparr>"
      unfolding s5_def by (subst run_DataAvailable) (simp_all add: s4 s3 s2)
    define s6 where "s6 = step (RecorderStopped ?i) s5"
    have f: "fetches s6 = fetches s @ [voice_request (cs @ ds)]"
      and t: "trackStops s6 = trackStops s @ [?k]"
      and m: "micRequests s6 = Suc ?k"
      and r: "\<not> isRecording s6"
      unfolding s6_def
      by (simp_all add: s5 s4 s3 s2 recorder_onstop_def sendVoiceRecording_def fetch_def
          addMessageToUI_def Let_def)
    have e: "run ([ClickVoice, MicGranted ?k] @ map (DataAvailable ?i) cs @ [ClickVoice]
                  @ map (DataAvailable ?i) ds @ [RecorderStopped ?i]) s = s6"
      unfolding run_append s6_def s5_def s4_def s3_def s2_def by simp
    show ?thesis unfolding e using f t m r by (simp add: voice_request_explicit)
  qed
  have n1: "isRecording t \<longrightarrow> startRecording t = t" by (simp add: startRecording_def)
  have n2: "\<not> isRecording t \<longrightarrow> stopRecording t = t" by (simp add: stopRecording_def)
  have d: "\<not> isRecording (run [ClickVoice, MicDenied ?k] s)"
    "fetches (run [ClickVoice, MicDenied ?k] s) = fetches s"
    "trackStops (run [ClickVoice, MicDenied ?k] s) = trackStops s"
    "recorders (run [ClickVoice, MicDenied ?k] s) = recorders s"
    "alerts (run [ClickVoice, MicDenied ?k] s) =
       alerts s @ [asc ''Could not access microphone. Please check permissions.'']"
    unfolding denied [OF assms] using assms(1) by simp_all
  show ?thesis unfolding Let_def using main d n1 n2 by blast
qed

theorem record_once_witness:
  "\<not> isRecording example_page \<and> mediaDevices example_page
   \<and> \<not> vb_disabled (voiceButton example_page) \<and> recorderHost example_page = Records
   \<and> fetches (run [ClickVoice, MicGranted 0, DataAvailable 0 7, ClickVoice,
                    DataAvailable 0 8, RecorderStopped 0] example_page) =
       [\<lparr>req_method = [80, 79, 83, 84],
         req_url = [47, 97, 112, 105, 47, 118, 111, 105, 99, 101],
         req_payload = VoiceForm [7, 8] [97, 117, 100, 105, 111, 47, 109, 112, 51]
                         [100, 101, 102, 97, 117, 108, 116, 95, 117, 115, 101, 114]\<rparr>]
   \<and> trackStops (run [ClickVoice, MicGranted 0, DataAvailable 0 7, ClickVoice,
                       DataAvailable 0 8, RecorderStopped 0] example_page) = [0]
   \<and> \<not> isRecording (run [ClickVoice, MicGranted 0, DataAvailable 0 7, ClickVoice,
                           DataAvailable 0 8, RecorderStopped 0] example_page)
   \<and> \<not> isRecording (run [ClickVoice, MicDenied 0] example_page)
   \<and> fetches (run [ClickVoice, MicDenied 0] example_page) = []
   \<and> trackStops (run [ClickVoice, MicDenied 0] example_page) = []
   \<and> alerts (run [ClickVoice, MicDenied 0] example_page) =
       [[67, 111, 117, 108, 100, 32, 110, 111, 116, 32, 97, 99, 99, 101, 115, 115, 32,
          109, 105, 99, 114, 111, 112, 104, 111, 110, 101, 46, 32, 80, 108, 101, 97, 115,
          101, 32, 99, 104, 101, 99, 107, 32, 112, 101, 114, 109, 105, 115, 115, 105, 111,
          110, 115, 46]]
   \<and> stopRecording example_page = example_page
   \<and> isRecording (run [ClickVoice, MicGranted 0] example_page)
   \<and> startRecording (run [ClickVoice, MicGranted 0] example_page)
       = run [ClickVoice, MicGranted 0] example_page"
proof -
  have a: "\<not> isRecording example_page" "mediaDevices example_page"
    "\<not> vb_disabled (voiceButton example_page)"
    by (simp_all add: example_page_def)
  have h: "recorderHost example_page = Records" by (simp add: example_page_def)
  have v: "micRequests example_page = 0" "recorders example_page = []"
    "fetches example_page = []" "trackStops example_page = []" "alerts example_page = []"
    by (simp_all add: example_page_def)
  have g: "isRecording (run [ClickVoice, MicGranted 0] example_page)"
    using granted [OF a h] by (simp add: v)
  from record_once [OF a, of "[7]" "[8]" example_page]
       record_once [OF a, of "[7]" "[8]" "run [ClickVoice, MicGranted 0] example_page"]
       a h g
  show ?thesis by (simp add: v Let_def asc_def)
qed

text \<open>
  Without a grant in between, the second toggle is a second start: recording only
  begins when the request is granted, so after two toggles in a row nothing was
  uploaded and nothing released, and two requests for the microphone are pending. After
  a denied request the recorder is idle and the second toggle asks again.
\<close>

theorem toggle_twice:
  "\<not> isRecording (run [ClickVoice, ClickVoice] example_page)
   \<and> micAwaiting (run [ClickVoice, ClickVoice] example_page) = [0, 1]
   \<and> fetches (run [ClickVoice, ClickVoice] example_page) = []
   \<and> trackStops (run [ClickVoice, ClickVoice] example_page) = []
   \<and> \<not> isRecording (run [ClickVoice, MicDenied 0, ClickVoice] example_page)
   \<and> micAwaiting (run [ClickVoice, MicDenied 0, ClickVoice] example_page) = [1]
   \<and> fetches (run [ClickVoice, MicDenied 0, ClickVoice] example_page) = []
   \<and> trackStops (run [ClickVoice, MicDenied 0, ClickVoice] example_page) = []
   \<and> length (alerts (run [ClickVoice, MicDenied 0, ClickVoice] example_page)) = 1"
  by (simp add: example_page_def toggleVoiceRecording_def startRecording_def
      getUserMedia_catch_def console_error_def Let_def)

text \<open>
  When both requests of two toggles in a row are granted, two recorders run, the
  variable holds the second, and a later stop releases only the second stream.
\<close>

lemma both_granted:
  "map rec_state (recorders (run [ClickVoice, ClickVoice, MicGranted 0, MicGranted 1,
                                  ClickVoice, RecorderStopped 1] example_page)) =
     [Recording, Inactive]
   \<and> trackStops (run [ClickVoice, ClickVoice, MicGranted 0, MicGranted 1,
                       ClickVoice, RecorderStopped 1] example_page) = [1]"
  by (simp add: example_page_def toggleVoiceRecording_def startRecording_def
      stopRecording_def recorder_stop_def getUserMedia_then_def recorder_onstop_def
      sendVoiceRecording_def fetch_def addMessageToUI_def Let_def)

end
